theory Spec2Isabelle
  imports Main "HOL-Library.AList"
begin

section \<open>JavaScript values and objects\<close>

text \<open>
  The association code of \<^verbatim>\<open>lib/associations/belongs-to.js\<close> is dynamically typed: it
  tests values for truthiness, uses them as property keys and copies property bags with
  lodash. Values are therefore modelled by one datatype. \<open>JNum\<close> covers the integral
  numbers only; \<open>JObj c ps\<close> is an object created by the class \<open>c\<close> (\<open>''Object''\<close> for a
  literal) with its own properties \<open>ps\<close> in insertion order.
\<close>

datatype jsval =
    JUndefined
  | JNull
  | JBool bool
  | JNum int
  | JStr string
  | JArr "jsval list"
  | JObj string "(string \<times> jsval) list"

type_synonym jsobj = "(string \<times> jsval) list"

datatype error = Error string | TypeError | Rejected string

fun truthy :: "jsval \<Rightarrow> bool" where
  "truthy JUndefined = False"
| "truthy JNull = False"
| "truthy (JBool b) = b"
| "truthy (JNum n) = (n \<noteq> 0)"
| "truthy (JStr s) = (s \<noteq> [])"
| "truthy (JArr xs) = True"
| "truthy (JObj c ps) = True"

definition digits :: string where
  "digits = ''0123456789''"

fun digit_string :: "nat \<Rightarrow> string" where
  "digit_string n =
     (if n < 10 then [digits ! n]
      else digit_string (n div 10) @ [digits ! (n mod 10)])"

declare digit_string.simps [simp del]

definition number_string :: "int \<Rightarrow> string" where
  "number_string i =
     (if i < 0 then CHR ''-'' # digit_string (nat (- i)) else digit_string (nat i))"

fun join :: "string \<Rightarrow> string list \<Rightarrow> string" where
  "join sep [] = []"
| "join sep [x] = x"
| "join sep (x # y # ys) = x @ sep @ join sep (y # ys)"

text \<open>
  \<open>to_key\<close> is the conversion JavaScript applies to a value used as a property key
  (\<open>obj[v]\<close>): the string itself, the decimal numeral, \<open>undefined\<close>, \<open>null\<close>, the
  comma-joined elements of an array, and \<open>[object Object]\<close> for every plain object.
\<close>

fun to_key :: "jsval \<Rightarrow> string" where
  "to_key JUndefined = ''undefined''"
| "to_key JNull = ''null''"
| "to_key (JBool b) = (if b then ''true'' else ''false'')"
| "to_key (JNum n) = number_string n"
| "to_key (JStr s) = s"
| "to_key (JArr xs) =
     join '','' (map (\<lambda>x. if x = JUndefined \<or> x = JNull then [] else to_key x) xs)"
| "to_key (JObj c ps) = ''[object Object]''"

text \<open>Reading \<open>obj[k]\<close> on a property bag: an absent property reads \<open>undefined\<close>.
  Writing \<open>obj[k] = v\<close> is \<^const>\<open>AList.update\<close>: an existing key keeps its place, a new
  one is appended.\<close>

definition obj_get :: "jsobj \<Rightarrow> string \<Rightarrow> jsval" where
  "obj_get ps k = (case map_of ps k of None \<Rightarrow> JUndefined | Some v \<Rightarrow> v)"

definition hasOwnProperty :: "jsobj \<Rightarrow> string \<Rightarrow> bool" where
  "hasOwnProperty ps k = (map_of ps k \<noteq> None)"

text \<open>lodash \<open>_.defaults(dest, src)\<close>: a property of \<open>src\<close> is copied where \<open>dest\<close> reads
  \<open>undefined\<close>. lodash \<open>_.extend(dest, src)\<close>: every property of \<open>src\<close> is assigned.\<close>

fun lodash_defaults :: "jsobj \<Rightarrow> jsobj \<Rightarrow> jsobj" where
  "lodash_defaults dest [] = dest"
| "lodash_defaults dest ((k, v) # src) =
     lodash_defaults (if obj_get dest k = JUndefined then AList.update k v dest else dest) src"

fun lodash_extend :: "jsobj \<Rightarrow> jsobj \<Rightarrow> jsobj" where
  "lodash_extend dest [] = dest"
| "lodash_extend dest ((k, v) # src) = lodash_extend (AList.update k v dest) src"

section \<open>Utils\<close>

definition lower_letters :: string where
  "lower_letters = ''abcdefghijklmnopqrstuvwxyz''"

definition upper_letters :: string where
  "upper_letters = ''ABCDEFGHIJKLMNOPQRSTUVWXYZ''"

definition to_upper :: "char \<Rightarrow> char" where
  "to_upper c = (case map_of (zip lower_letters upper_letters) c of Some u \<Rightarrow> u | None \<Rightarrow> c)"

definition to_lower :: "char \<Rightarrow> char" where
  "to_lower c = (case map_of (zip upper_letters lower_letters) c of Some l \<Rightarrow> l | None \<Rightarrow> c)"

definition is_upper :: "char \<Rightarrow> bool" where
  "is_upper c = (c \<in> set upper_letters)"

definition is_separator :: "char \<Rightarrow> bool" where
  "is_separator c = (c = CHR ''_'' \<or> c = CHR ''-'' \<or> c = CHR '' '')"

text \<open>Modelled from the spec: \<^verbatim>\<open>Utils.camelizeIf\<close> (\<^verbatim>\<open>lib/utils\<close>) is not in src. The
  spec calls its effect camel-casing: every run of separators is dropped and the
  character after it is upper-cased; \<open>camelizeIf\<close> does so only under its condition.\<close>

fun camelize_from :: "bool \<Rightarrow> string \<Rightarrow> string" where
  "camelize_from up [] = []"
| "camelize_from up (c # cs) =
     (if is_separator c then camelize_from True cs
      else (if up then to_upper c else c) # camelize_from False cs)"

definition camelize :: "string \<Rightarrow> string" where
  "camelize s = camelize_from False s"

definition camelizeIf :: "string \<Rightarrow> bool \<Rightarrow> string" where
  "camelizeIf s condition = (if condition then camelize s else s)"

text \<open>Modelled from the spec: \<^verbatim>\<open>Utils.underscoredIf\<close> (\<^verbatim>\<open>lib/utils\<close>) is not in src.
  The spec calls its effect underscoring: every upper-case letter is lower-cased and,
  unless it starts the string, preceded by an underscore; \<open>underscoredIf\<close> does so only
  under its condition.\<close>

fun underscore_from :: "bool \<Rightarrow> string \<Rightarrow> string" where
  "underscore_from first [] = []"
| "underscore_from first (c # cs) =
     (if is_upper c
      then (if first then [] else ''_'') @ to_lower c # underscore_from False cs
      else c # underscore_from False cs)"

definition underscore :: "string \<Rightarrow> string" where
  "underscore s = underscore_from True s"

definition underscoredIf :: "string \<Rightarrow> bool \<Rightarrow> string" where
  "underscoredIf s condition = (if condition then underscore s else s)"

text \<open>Modelled from the spec: \<^verbatim>\<open>Utils.uppercaseFirst\<close> (\<^verbatim>\<open>lib/utils\<close>) is not in src.
  The spec derives the accessor names from the capitalized alias.\<close>

definition uppercaseFirst :: "string \<Rightarrow> string" where
  "uppercaseFirst s = (case s of [] \<Rightarrow> [] | c # cs \<Rightarrow> to_upper c # cs)"

text \<open>Modelled from the spec: \<^verbatim>\<open>Utils.mergeDefaults\<close> (\<^verbatim>\<open>lib/utils\<close>) is not in src.
  The spec gives it default-merge semantics over the attribute registry: a name already
  present keeps its definition untouched, only absent names are added.\<close>

definition mergeDefaults ::
  "(string \<times> jsobj) list \<Rightarrow> (string \<times> jsobj) list \<Rightarrow> (string \<times> jsobj) list" where
  "mergeDefaults a b = a @ filter (\<lambda>(k, d). map_of a k = None) b"

section \<open>Models, options and the association\<close>

record names =
  singular :: string
  plural :: "string option"

text \<open>An entity type: \<open>rawAttributes\<close> is the attribute registry (name to attribute
  definition), \<open>underscored\<close> is \<^verbatim>\<open>options.underscored\<close>, \<open>options_name\<close> is
  \<^verbatim>\<open>options.name\<close>, and \<open>attributeNames\<close> stands for the schema caches that
  \<^verbatim>\<open>refreshAttributes\<close> derives from the registry.\<close>

record model =
  model_name :: string
  rawAttributes :: "(string \<times> jsobj) list"
  primaryKeyAttribute :: string
  underscored :: bool
  options_name :: names
  attributeNames :: "string list"

text \<open>The shapes \<^verbatim>\<open>options.foreignKey\<close> and \<^verbatim>\<open>options.targetKey\<close> take: absent, a
  string, a descriptor object, or an array of strings and descriptors (foreign key);
  absent, a string, or an array of strings (target key).\<close>

datatype fk_elem = FkName string | FkDescriptor jsobj

datatype fk_option = FkAbsent | FkSingle fk_elem | FkArray "fk_elem list"

datatype tk_option = TkAbsent | TkName string | TkArray "string list"

record assoc_options =
  opt_as :: "string option"
  opt_foreignKey :: fk_option
  opt_targetKey :: tk_option
  opt_keyType :: jsval
  opt_useHooks :: jsval
  opt_name :: "names option"
  opt_rest :: jsobj

record accessor_names =
  acc_get :: string
  acc_set :: string
  acc_create :: string

text \<open>The fields of a \<^verbatim>\<open>BelongsTo\<close> object. The class assigns \<open>foreignKeys\<close> and
  \<open>targetKeys\<close>; its methods also read \<^verbatim>\<open>association.foreignKey\<close> and
  \<^verbatim>\<open>association.targetKey\<close>, which are the last two fields.\<close>

record association =
  source :: model
  target :: model
  options :: assoc_options
  as :: string
  isAliased :: bool
  associationType :: string
  isSingleAssociation :: bool
  foreignKeys :: "jsobj list"
  targetKeys :: "string list"
  identifiers :: "jsobj list"
  identifierFields :: "jsval list"
  targetKeyFields :: "jsval list"
  singlePrimaryTargetKey :: jsval
  associationAccessor :: string
  accessors :: accessor_names
  foreignKey :: jsval
  targetKey :: jsval

section \<open>The constructor\<close>

text \<open>\<^verbatim>\<open>_getDefaultForeignKeyName\<close> (lines 289-297), over the alias already resolved.\<close>

definition getDefaultForeignKeyName :: "string \<Rightarrow> model \<Rightarrow> model \<Rightarrow> string" where
  "getDefaultForeignKeyName alias src tgt =
     camelizeIf
       (join ''_'' [underscoredIf alias (underscored src), primaryKeyAttribute tgt])
       (\<not> underscored src)"

definition isArrayFk :: "fk_option \<Rightarrow> bool" where
  "isArrayFk fk = (case fk of FkArray es \<Rightarrow> True | _ \<Rightarrow> False)"

definition isArrayTk :: "tk_option \<Rightarrow> bool" where
  "isArrayTk tk = (case tk of TkArray ks \<Rightarrow> True | _ \<Rightarrow> False)"

definition lengthFk :: "fk_option \<Rightarrow> nat" where
  "lengthFk fk = (case fk of FkArray es \<Rightarrow> length es | _ \<Rightarrow> 0)"

definition lengthTk :: "tk_option \<Rightarrow> nat" where
  "lengthTk tk = (case tk of TkArray ks \<Rightarrow> length ks | _ \<Rightarrow> 0)"

text \<open>The guard of lines 36-41.\<close>

definition arity_mismatch :: "fk_option \<Rightarrow> tk_option \<Rightarrow> bool" where
  "arity_mismatch fk tk =
     ((isArrayFk fk \<or> isArrayTk tk) \<and>
      (\<not> isArrayFk fk \<or> \<not> isArrayTk tk \<or> lengthFk fk \<noteq> lengthTk tk))"

definition arity_message :: string where
  "arity_message =
     ''targetKey must be array of equal length when foreignKey is an array, and vice versa''"

text \<open>Lines 47-73: \<open>None\<close> is the \<^verbatim>\<open>null\<close> that \<^verbatim>\<open>this.foreignKeys\<close> keeps when no
  branch assigns it; the default descriptor then takes its place.\<close>

definition normalize_elem :: "fk_elem \<Rightarrow> jsobj" where
  "normalize_elem e = (case e of FkDescriptor d \<Rightarrow> d | FkName s \<Rightarrow> [(''name'', JStr s)])"

definition supplied_foreignKeys :: "string \<Rightarrow> fk_option \<Rightarrow> jsobj list option" where
  "supplied_foreignKeys dflt fk =
     (case fk of
        FkArray es \<Rightarrow> Some (map normalize_elem es)
      | FkSingle (FkDescriptor d) \<Rightarrow>
          (let name = (if truthy (obj_get d ''name'') then obj_get d ''name'' else JStr dflt)
           in Some [lodash_defaults (lodash_defaults [] d) [(''name'', name)]])
      | FkSingle (FkName s) \<Rightarrow> (if s \<noteq> [] then Some [[(''name'', JStr s)]] else None)
      | FkAbsent \<Rightarrow> None)"

definition resolve_foreignKeys :: "string \<Rightarrow> fk_option \<Rightarrow> jsobj list" where
  "resolve_foreignKeys dflt fk =
     (case supplied_foreignKeys dflt fk of
        Some fks \<Rightarrow> fks
      | None \<Rightarrow> [[(''name'', JStr dflt)]])"

text \<open>Lines 77-79. The callbacks index \<^verbatim>\<open>this.source.rawAttributes\<close> with the
  identifier, which is the descriptor object, so the key is \<open>to_key\<close> of that object.\<close>

definition identifierFields_of :: "model \<Rightarrow> jsobj list \<Rightarrow> jsval list" where
  "identifierFields_of src ids =
     map (\<lambda>identifier.
            (case map_of (rawAttributes src) (to_key (JObj ''Object'' identifier)) of
               Some attr \<Rightarrow>
                 (if truthy (obj_get attr ''field'') then obj_get attr ''field''
                  else JObj ''Object'' identifier)
             | None \<Rightarrow> JObj ''Object'' identifier))
         (filter (\<lambda>identifier.
                    map_of (rawAttributes src) (to_key (JObj ''Object'' identifier)) \<noteq> None)
                 ids)"

text \<open>Lines 81-85.\<close>

definition resolve_targetKeys :: "model \<Rightarrow> tk_option \<Rightarrow> string list" where
  "resolve_targetKeys tgt tk =
     (case tk of
        TkArray ks \<Rightarrow> ks
      | TkName s \<Rightarrow> [if s \<noteq> [] then s else primaryKeyAttribute tgt]
      | TkAbsent \<Rightarrow> [primaryKeyAttribute tgt])"

text \<open>\<^verbatim>\<open>rawAttributes[key]\<close> is a property read on a plain object: besides the
  attributes, which are its own properties, it finds what every object inherits from
  \<^verbatim>\<open>Object.prototype\<close>. An inherited value is a function or the prototype itself and has
  no \<^verbatim>\<open>field\<close> and no \<^verbatim>\<open>type\<close>, so it reads as an empty property bag; \<open>None\<close> is the
  \<^verbatim>\<open>undefined\<close> of a name found nowhere.\<close>

definition object_prototype_names :: "string list" where
  "object_prototype_names =
     [''constructor'', ''__defineGetter__'', ''__defineSetter__'', ''hasOwnProperty'',
      ''__lookupGetter__'', ''__lookupSetter__'', ''isPrototypeOf'',
      ''propertyIsEnumerable'', ''toString'', ''valueOf'', ''__proto__'',
      ''toLocaleString'']"

definition registry_read :: "(string \<times> jsobj) list \<Rightarrow> string \<Rightarrow> jsobj option" where
  "registry_read registry k =
     (case map_of registry k of
        Some attr \<Rightarrow> Some attr
      | None \<Rightarrow> (if k \<in> set object_prototype_names then Some [] else None))"

text \<open>Lines 87-89: reading \<^verbatim>\<open>.field\<close> of a name that \<^verbatim>\<open>rawAttributes\<close> does not
  resolve is a property access on \<^verbatim>\<open>undefined\<close>, which throws a TypeError.\<close>

fun targetKeyFields_of :: "model \<Rightarrow> string list \<Rightarrow> error + jsval list" where
  "targetKeyFields_of tgt [] = Inr []"
| "targetKeyFields_of tgt (tkey # ks) =
     (case registry_read (rawAttributes tgt) tkey of
        None \<Rightarrow> Inl TypeError
      | Some attr \<Rightarrow>
          (case targetKeyFields_of tgt ks of
             Inl e \<Rightarrow> Inl e
           | Inr fs \<Rightarrow>
               Inr ((if truthy (obj_get attr ''field'') then obj_get attr ''field''
                     else JStr tkey) # fs)))"

text \<open>Lines 91-94: \<^verbatim>\<open>this.foreignKeys[0].name\<close> throws when there is no first
  foreign key.\<close>

definition singlePrimaryTargetKey_of ::
  "model \<Rightarrow> jsobj list \<Rightarrow> string list \<Rightarrow> error + jsval" where
  "singlePrimaryTargetKey_of tgt fks tks =
     (if length tks = 1 \<and> tks ! 0 = primaryKeyAttribute tgt
      then (case fks of [] \<Rightarrow> Inl TypeError | fk0 # rest \<Rightarrow> Inr (obj_get fk0 ''name''))
      else Inr JNull)"

text \<open>Modelled from the spec: the base class constructor (\<^verbatim>\<open>lib/associations/base\<close>) is
  not in src. By the spec's data model a relationship holds its source, its target, its
  options and the alias \<open>as\<close> taken from the options; nothing there assigns a singular
  \<open>foreignKey\<close> or \<open>targetKey\<close>, and neither does \<^verbatim>\<open>BelongsTo\<close>, so those two
  properties read \<open>undefined\<close>.\<close>

definition base_as :: "assoc_options \<Rightarrow> string option" where
  "base_as opts = opt_as opts"

definition as_truthy :: "string option \<Rightarrow> bool" where
  "as_truthy a = (case a of None \<Rightarrow> False | Some s \<Rightarrow> s \<noteq> [])"

text \<open>Lines 26-34: a truthy alias stays, otherwise the target's singular name takes its
  place.\<close>

definition resolve_as :: "string option \<Rightarrow> model \<Rightarrow> string" where
  "resolve_as a tgt =
     (case a of
        Some s \<Rightarrow> (if s \<noteq> [] then s else singular (options_name tgt))
      | None \<Rightarrow> singular (options_name tgt))"

text \<open>The constructor, lines 18-107, in the order of the source.\<close>

definition BelongsTo_new :: "model \<Rightarrow> model \<Rightarrow> assoc_options \<Rightarrow> error + association" where
  "BelongsTo_new src tgt opts =
     (let aliased = as_truthy (base_as opts);
          alias = resolve_as (base_as opts) tgt;
          nm = (if aliased then \<lparr>singular = alias, plural = None\<rparr> else options_name tgt)
      in if arity_mismatch (opt_foreignKey opts) (opt_targetKey opts)
         then Inl (Error arity_message)
         else
           (let fks = resolve_foreignKeys (getDefaultForeignKeyName alias src tgt)
                        (opt_foreignKey opts);
                tks = resolve_targetKeys tgt (opt_targetKey opts)
            in case targetKeyFields_of tgt tks of
                 Inl e \<Rightarrow> Inl e
               | Inr tkfs \<Rightarrow>
                   (case singlePrimaryTargetKey_of tgt fks tks of
                      Inl e \<Rightarrow> Inl e
                    | Inr spk \<Rightarrow>
                        Inr \<lparr>source = src,
                             target = tgt,
                             options = opts\<lparr>opt_name := Some nm\<rparr>,
                             as = alias,
                             isAliased = aliased,
                             associationType = ''BelongsTo'',
                             isSingleAssociation = True,
                             foreignKeys = fks,
                             targetKeys = tks,
                             identifiers = fks,
                             identifierFields = identifierFields_of src fks,
                             targetKeyFields = tkfs,
                             singlePrimaryTargetKey = spk,
                             associationAccessor = alias,
                             accessors =
                               \<lparr>acc_get = ''get'' @ uppercaseFirst (singular nm),
                                acc_set = ''set'' @ uppercaseFirst (singular nm),
                                acc_create = ''create'' @ uppercaseFirst (singular nm)\<rparr>,
                             foreignKey = JUndefined,
                             targetKey = JUndefined\<rparr>)))"

section \<open>Collaborators\<close>

text \<open>An instance is a row object of a model: the name of its model class and its
  attribute values.\<close>

record model_instance =
  inst_model :: string
  dataValues :: jsobj

definition instance_val :: "model_instance \<Rightarrow> jsval" where
  "instance_val i = JObj (inst_model i) (dataValues i)"

text \<open>\<^verbatim>\<open>Helpers.addForeignKeyConstraints\<close> and \<^verbatim>\<open>Helpers.checkNamingCollision\<close> are not
  in src and are taken as parameters: the first returns the attribute it was handed,
  with whatever constraint metadata it adds; the second returns the error it throws,
  if any.\<close>

record helpers =
  addForeignKeyConstraints ::
    "jsobj \<Rightarrow> model \<Rightarrow> model \<Rightarrow> assoc_options \<Rightarrow> jsval \<Rightarrow> jsobj"
  checkNamingCollision :: "association \<Rightarrow> error option"

text \<open>The target of a query: the target model, after \<^verbatim>\<open>unscoped()\<close>, \<^verbatim>\<open>scope(s)\<close> and
  \<^verbatim>\<open>schema(s, d)\<close> as \<^verbatim>\<open>get\<close> applies them.\<close>

datatype scope_sel = DefaultScope | Unscoped | Scoped jsval

record target_ref =
  tr_scope :: scope_sel
  tr_schema :: "(jsval \<times> jsval) option"

text \<open>The instance accessors, the query interface and the persistence interface are
  not in src and are taken as parameters. \<open>instance_get i k raw\<close> is
  \<^verbatim>\<open>i.get(k)\<close> or \<^verbatim>\<open>i.get(k, {raw: true})\<close>; \<open>instance_prop v k\<close> is the property read
  \<^verbatim>\<open>v[k]\<close> on an instance; \<open>instance_set i k v\<close> is \<^verbatim>\<open>i.set(k, v)\<close> and returns the
  instance as changed. Queries, \<^verbatim>\<open>save\<close> and \<^verbatim>\<open>create\<close> resolve or reject.\<close>

record collab =
  instance_get :: "model_instance \<Rightarrow> jsval \<Rightarrow> bool \<Rightarrow> jsval"
  instance_prop :: "model_instance \<Rightarrow> jsval \<Rightarrow> jsval"
  instance_set :: "model_instance \<Rightarrow> jsval \<Rightarrow> jsval \<Rightarrow> model_instance"
  instance_save :: "model_instance \<Rightarrow> jsobj \<Rightarrow> error + model_instance"
  target_create :: "jsval \<Rightarrow> jsobj option \<Rightarrow> error + model_instance"
  findById :: "target_ref \<Rightarrow> jsval \<Rightarrow> jsobj \<Rightarrow> error + model_instance option"
  findAll :: "target_ref \<Rightarrow> jsobj \<Rightarrow> error + model_instance list"
  findOne :: "target_ref \<Rightarrow> jsobj \<Rightarrow> error + model_instance option"

text \<open>The calls a traversal operation issues to the query and persistence interfaces,
  in order.\<close>

datatype call =
    FindById target_ref jsval jsobj
  | FindAll target_ref jsobj
  | FindOne target_ref jsobj
  | Save model_instance jsobj
  | Create jsval "jsobj option"

section \<open>injectAttributes\<close>

text \<open>Modelled from the spec: \<^verbatim>\<open>Model.refreshAttributes\<close> is not in src. The spec has it
  recompute the schema caches derived from the attribute registry.\<close>

definition refreshAttributes :: "model \<Rightarrow> model" where
  "refreshAttributes m = m\<lparr>attributeNames := map fst (rawAttributes m)\<rparr>"

text \<open>\<^verbatim>\<open>arr[index]\<close>: \<open>None\<close> is the \<^verbatim>\<open>undefined\<close> read past the end.\<close>

definition at_index :: "'a list \<Rightarrow> nat \<Rightarrow> 'a option" where
  "at_index xs i = (if i < length xs then Some (xs ! i) else None)"

definition missing_target_key :: string where
  "missing_target_key = ''Missing target key''"

text \<open>The body of the \<^verbatim>\<open>forEach\<close> of lines 113-133, from index \<open>i\<close> on, over the
  \<^verbatim>\<open>newAttributes\<close> built so far. \<^verbatim>\<open>!targetKey\<close> holds for a read past the end and for
  the empty string.\<close>

fun collect_newAttributes ::
  "helpers \<Rightarrow> association \<Rightarrow> jsobj list \<Rightarrow> nat \<Rightarrow> (string \<times> jsobj) list
     \<Rightarrow> error + (string \<times> jsobj) list" where
  "collect_newAttributes h a [] i newAttributes = Inr newAttributes"
| "collect_newAttributes h a (fk # fks) i newAttributes =
     (case at_index (targetKeys a) i of
        None \<Rightarrow> Inl (Error missing_target_key)
      | Some tkey \<Rightarrow>
          if tkey = [] then Inl (Error missing_target_key)
          else
            (case (if truthy (opt_keyType (options a)) then Inr (opt_keyType (options a))
                   else (case registry_read (rawAttributes (target a)) tkey of
                           None \<Rightarrow> Inl TypeError
                         | Some attr \<Rightarrow> Inr (obj_get attr ''type''))) of
               Inl e \<Rightarrow> Inl e
             | Inr ty \<Rightarrow>
                 (let newAttribute =
                        lodash_defaults (lodash_defaults [] fk)
                          [(''type'', ty), (''allowNull'', JBool True)];
                      targetKeyField =
                        (case at_index (targetKeyFields a) i of
                           None \<Rightarrow> JUndefined | Some f \<Rightarrow> f)
                  in collect_newAttributes h a fks (Suc i)
                       (AList.update (to_key (obj_get fk ''name''))
                          (addForeignKeyConstraints h newAttribute (target a) (source a)
                             (options a) targetKeyField)
                          newAttributes))))"

text \<open>\<^verbatim>\<open>injectAttributes\<close>, lines 110-152: the association as it is afterwards (its
  \<open>source\<close> is the source model, whose registry the method mutates) and the error
  thrown, if any. A source that is also the target is not tracked as one object.\<close>

definition injectAttributes :: "helpers \<Rightarrow> association \<Rightarrow> association \<times> error option" where
  "injectAttributes h a =
     (case collect_newAttributes h a (foreignKeys a) 0 [] of
        Inl e \<Rightarrow> (a, Some e)
      | Inr newAttributes \<Rightarrow>
          (let a' = a\<lparr>source :=
                       refreshAttributes
                         ((source a)\<lparr>rawAttributes :=
                            mergeDefaults (rawAttributes (source a)) newAttributes\<rparr>)\<rparr>
           in (a', checkNamingCollision h a')))"

section \<open>get\<close>

datatype get_arg = OneInstance model_instance | ManyInstances "model_instance list"

datatype get_value =
    GotInstance "model_instance option"
  | GotMapping "(string \<times> model_instance option) list"

text \<open>The operator symbols \<^verbatim>\<open>Op.in\<close> and \<^verbatim>\<open>Op.and\<close> as property keys.\<close>

definition Op_in :: string where
  "Op_in = ''Symbol(in)''"

definition Op_and :: string where
  "Op_and = ''Symbol(and)''"

text \<open>Lines 172-187: the target the query is sent to.\<close>

definition resolve_target :: "jsobj \<Rightarrow> target_ref" where
  "resolve_target opts =
     (let t0 = \<lparr>tr_scope = DefaultScope, tr_schema = None\<rparr>;
          t1 = (if hasOwnProperty opts ''scope''
                then (if \<not> truthy (obj_get opts ''scope'') then t0\<lparr>tr_scope := Unscoped\<rparr>
                      else t0\<lparr>tr_scope := Scoped (obj_get opts ''scope'')\<rparr>)
                else t0)
      in if hasOwnProperty opts ''schema''
         then t1\<lparr>tr_schema := Some (obj_get opts ''schema'', obj_get opts ''schemaDelimiter'')\<rparr>
         else t1)"

definition key_at :: "string list \<Rightarrow> nat \<Rightarrow> string" where
  "key_at tks i = (case at_index tks i of None \<Rightarrow> to_key JUndefined | Some k \<Rightarrow> k)"

text \<open>The two \<^verbatim>\<open>forEach\<close> loops of lines 195-199 and 203-205:
  \<^verbatim>\<open>where[association.targetKeys[index]] = f(foreignKey)\<close> from index \<open>i\<close> on.\<close>

fun where_forEach ::
  "(jsobj \<Rightarrow> jsval) \<Rightarrow> string list \<Rightarrow> jsobj list \<Rightarrow> nat \<Rightarrow> jsobj \<Rightarrow> jsobj" where
  "where_forEach f tks [] i w = w"
| "where_forEach f tks (fk # fks) i w =
     where_forEach f tks fks (Suc i) (AList.update (key_at tks i) (f fk) w)"

text \<open>Line 209.\<close>

definition with_where :: "jsobj \<Rightarrow> jsobj \<Rightarrow> jsobj" where
  "with_where opts w =
     AList.update ''where''
       (if truthy (obj_get opts ''where'')
        then JObj ''Object'' [(Op_and, JArr [JObj ''Object'' w, obj_get opts ''where''])]
        else JObj ''Object'' w)
       opts"

text \<open>Lines 213-222: the result object of the batch mode.\<close>

definition batch_result ::
  "collab \<Rightarrow> association \<Rightarrow> model_instance list \<Rightarrow> model_instance list
     \<Rightarrow> (string \<times> model_instance option) list" where
  "batch_result c a instances results =
     foldl (\<lambda>result i. AList.update (to_key (instance_get c i (targetKey a) True)) (Some i) result)
       (foldl (\<lambda>result i. AList.update (to_key (instance_get c i (foreignKey a) True)) None result)
          [] instances)
       results"

text \<open>\<^verbatim>\<open>get\<close>, lines 169-227: the calls issued and what the returned promise settles
  to. \<^verbatim>\<open>Utils.cloneDeep\<close> yields a copy of the options, which is the same value.\<close>

definition BelongsTo_get ::
  "collab \<Rightarrow> association \<Rightarrow> get_arg \<Rightarrow> jsobj \<Rightarrow> call list \<times> (error + get_value)" where
  "BelongsTo_get c a arg opts =
     (let Target = resolve_target opts
      in case arg of
           ManyInstances instances \<Rightarrow>
             (let w = where_forEach
                        (\<lambda>fk. JObj ''Object''
                                 [(Op_in,
                                   JArr (map (\<lambda>i. instance_get c i (obj_get fk ''name'') False)
                                           instances))])
                        (targetKeys a) (foreignKeys a) 0 [];
                  opts' = with_where opts w
              in ([FindAll Target opts'],
                  (case findAll c Target opts' of
                     Inl e \<Rightarrow> Inl e
                   | Inr results \<Rightarrow> Inr (GotMapping (batch_result c a instances results)))))
         | OneInstance i \<Rightarrow>
             if truthy (singlePrimaryTargetKey a) \<and> \<not> truthy (obj_get opts ''where'')
             then (let k = instance_get c i (singlePrimaryTargetKey a) False
                   in ([FindById Target k opts],
                       (case findById c Target k opts of
                          Inl e \<Rightarrow> Inl e
                        | Inr r \<Rightarrow> Inr (GotInstance r))))
             else (let w = where_forEach (\<lambda>fk. instance_get c i (obj_get fk ''name'') False)
                             (targetKeys a) (foreignKeys a) 0 [];
                       opts' = with_where (AList.update ''limit'' JNull opts) w
                   in ([FindOne Target opts'],
                       (case findOne c Target opts' of
                          Inl e \<Rightarrow> Inl e
                        | Inr r \<Rightarrow> Inr (GotInstance r)))))"

section \<open>set\<close>

text \<open>The second argument of \<^verbatim>\<open>set\<close>: a model instance or any other value.\<close>

datatype set_arg = ArgInstance model_instance | ArgValue jsval

definition instanceof_model :: "set_arg \<Rightarrow> model \<Rightarrow> bool" where
  "instanceof_model x m =
     (case x of ArgInstance i \<Rightarrow> inst_model i = model_name m | ArgValue v \<Rightarrow> False)"

definition arg_val :: "set_arg \<Rightarrow> jsval" where
  "arg_val x = (case x of ArgInstance i \<Rightarrow> instance_val i | ArgValue v \<Rightarrow> v)"

text \<open>What \<^verbatim>\<open>set\<close> leaves behind: the persistence calls issued, the source instance in
  memory after \<^verbatim>\<open>sourceInstance.set\<close>, and what is returned: \<open>Inr None\<close> for the
  plain \<^verbatim>\<open>return\<close>, otherwise what the promise of \<^verbatim>\<open>save\<close> settles to.\<close>

record set_outcome =
  calls :: "call list"
  source_after :: model_instance
  returned :: "error + model_instance option"

text \<open>Lines 242-245.\<close>

definition set_value :: "collab \<Rightarrow> association \<Rightarrow> set_arg \<Rightarrow> jsval" where
  "set_value c a x =
     (case x of
        ArgInstance i \<Rightarrow>
          (if instanceof_model x (target a) then instance_prop c i (targetKey a)
           else arg_val x)
      | ArgValue v \<Rightarrow> v)"

text \<open>Lines 251-258.\<close>

definition save_options :: "association \<Rightarrow> jsobj \<Rightarrow> jsobj" where
  "save_options a opts =
     lodash_extend
       [(''fields'', JArr [foreignKey a]),
        (''allowNull'', JArr [foreignKey a]),
        (''association'', JBool True)]
       opts"

text \<open>\<^verbatim>\<open>set\<close>, lines 237-262.\<close>

definition BelongsTo_set ::
  "collab \<Rightarrow> association \<Rightarrow> model_instance \<Rightarrow> set_arg \<Rightarrow> jsobj option \<Rightarrow> set_outcome" where
  "BelongsTo_set c a sourceInstance associatedInstance opts0 =
     (let opts = (case opts0 of None \<Rightarrow> [] | Some ob \<Rightarrow> ob);
          v = set_value c a associatedInstance;
          src' = instance_set c sourceInstance (foreignKey a) v
      in if obj_get opts ''save'' = JBool False
         then \<lparr>calls = [], source_after = src', returned = Inr None\<rparr>
         else \<lparr>calls = [Save src' (save_options a opts)],
               source_after = src',
               returned = (case instance_save c src' (save_options a opts) of
                             Inl e \<Rightarrow> Inl e
                           | Inr r \<Rightarrow> Inr (Some r))\<rparr>)"

section \<open>create\<close>

definition instanceof_Transaction :: "jsval \<Rightarrow> bool" where
  "instanceof_Transaction v = (case v of JObj cls ps \<Rightarrow> cls = ''Transaction'' | _ \<Rightarrow> False)"

text \<open>Lines 275-280: the options handed on to the set accessor.\<close>

definition create_options :: "jsobj option \<Rightarrow> jsobj" where
  "create_options fieldsOrOptions =
     (let fo = (case fieldsOrOptions of None \<Rightarrow> [] | Some ob \<Rightarrow> ob);
          o1 = (if instanceof_Transaction (obj_get fo ''transaction'')
                then [(''transaction'', obj_get fo ''transaction'')]
                else [])
      in AList.update ''logging'' (obj_get fo ''logging'') o1)"

text \<open>Modelled from the spec: \<^verbatim>\<open>Helpers.mixinMethods\<close> is not in src. The spec has the
  accessor \<^verbatim>\<open>set<Name>\<close> of an instance delegate to the Set operation with that instance
  as first argument.\<close>

definition set_accessor ::
  "collab \<Rightarrow> association \<Rightarrow> model_instance \<Rightarrow> model_instance \<Rightarrow> jsobj \<Rightarrow> set_outcome" where
  "set_accessor c a sourceInstance newAssociatedObject opts =
     BelongsTo_set c a sourceInstance (ArgInstance newAssociatedObject) (Some opts)"

text \<open>\<^verbatim>\<open>create\<close>, lines 272-287: \<^verbatim>\<open>then\<close> runs its callback only when the promise of
  \<^verbatim>\<open>target.create\<close> has resolved, and the promise returned settles as the callback's
  result does.\<close>

definition BelongsTo_create ::
  "collab \<Rightarrow> association \<Rightarrow> model_instance \<Rightarrow> jsval \<Rightarrow> jsobj option \<Rightarrow> set_outcome" where
  "BelongsTo_create c a sourceInstance vals fieldsOrOptions =
     (case target_create c vals fieldsOrOptions of
        Inl e \<Rightarrow>
          \<lparr>calls = [Create vals fieldsOrOptions],
           source_after = sourceInstance,
           returned = Inl e\<rparr>
      | Inr newAssociatedObject \<Rightarrow>
          (let r = set_accessor c a sourceInstance newAssociatedObject
                     (create_options fieldsOrOptions)
           in r\<lparr>calls := Create vals fieldsOrOptions # calls r\<rparr>))"

section \<open>Example data\<close>

text \<open>Two models, \<open>Post\<close> (the source) and \<open>Author\<close> (the target). \<open>Post\<close> already
  defines an attribute \<open>AuthorId\<close> stored in the column \<open>author_id\<close>.\<close>

definition Author :: model where
  "Author =
     \<lparr>model_name = ''Author'',
      rawAttributes = [(''id'', [(''type'', JStr ''INTEGER''), (''primaryKey'', JBool True)])],
      primaryKeyAttribute = ''id'',
      underscored = False,
      options_name = \<lparr>singular = ''Author'', plural = Some ''Authors''\<rparr>,
      attributeNames = [''id'']\<rparr>"

definition Post :: model where
  "Post =
     \<lparr>model_name = ''Post'',
      rawAttributes =
        [(''id'', [(''type'', JStr ''INTEGER''), (''primaryKey'', JBool True)]),
         (''AuthorId'', [(''type'', JStr ''BIGINT''), (''field'', JStr ''author_id'')])],
      primaryKeyAttribute = ''id'',
      underscored = False,
      options_name = \<lparr>singular = ''Post'', plural = Some ''Posts''\<rparr>,
      attributeNames = [''id'', ''AuthorId'']\<rparr>"

definition no_options :: assoc_options where
  "no_options =
     \<lparr>opt_as = None, opt_foreignKey = FkAbsent, opt_targetKey = TkAbsent,
      opt_keyType = JUndefined, opt_useHooks = JUndefined, opt_name = None, opt_rest = []\<rparr>"

text \<open>The association \<^verbatim>\<open>Post.belongsTo(Author)\<close> as the constructor builds it.\<close>

definition post_author :: association where
  "post_author =
     \<lparr>source = Post,
      target = Author,
      options =
        no_options\<lparr>opt_name := Some \<lparr>singular = ''Author'', plural = Some ''Authors''\<rparr>\<rparr>,
      as = ''Author'',
      isAliased = False,
      associationType = ''BelongsTo'',
      isSingleAssociation = True,
      foreignKeys = [[(''name'', JStr ''AuthorId'')]],
      targetKeys = [''id''],
      identifiers = [[(''name'', JStr ''AuthorId'')]],
      identifierFields = [],
      targetKeyFields = [JStr ''id''],
      singlePrimaryTargetKey = JStr ''AuthorId'',
      associationAccessor = ''Author'',
      accessors =
        \<lparr>acc_get = ''getAuthor'', acc_set = ''setAuthor'', acc_create = ''createAuthor''\<rparr>,
      foreignKey = JUndefined,
      targetKey = JUndefined\<rparr>"

text \<open>\<^verbatim>\<open>Post.belongsTo(Author, {foreignKey: [{type: 'UUID'}], targetKey: ['id']})\<close>: one
  key pair on the primary key, whose foreign-key descriptor has no name, and the
  association the constructor builds for it.\<close>

definition nameless_options :: assoc_options where
  "nameless_options =
     no_options\<lparr>opt_foreignKey := FkArray [FkDescriptor [(''type'', JStr ''UUID'')]],
                opt_targetKey := TkArray [''id'']\<rparr>"

definition post_author_nameless :: association where
  "post_author_nameless =
     \<lparr>source = Post,
      target = Author,
      options =
        nameless_options
          \<lparr>opt_name := Some \<lparr>singular = ''Author'', plural = Some ''Authors''\<rparr>\<rparr>,
      as = ''Author'',
      isAliased = False,
      associationType = ''BelongsTo'',
      isSingleAssociation = True,
      foreignKeys = [[(''type'', JStr ''UUID'')]],
      targetKeys = [''id''],
      identifiers = [[(''type'', JStr ''UUID'')]],
      identifierFields = [],
      targetKeyFields = [JStr ''id''],
      singlePrimaryTargetKey = JUndefined,
      associationAccessor = ''Author'',
      accessors =
        \<lparr>acc_get = ''getAuthor'', acc_set = ''setAuthor'', acc_create = ''createAuthor''\<rparr>,
      foreignKey = JUndefined,
      targetKey = JUndefined\<rparr>"

text \<open>Modelled from the spec: the instance accessors (\<^verbatim>\<open>lib/model\<close>) are not in src. By
  the spec an instance exposes get and set of attribute values by name; the name is the
  property key of the value handed in.\<close>

definition by_name_get :: "model_instance \<Rightarrow> jsval \<Rightarrow> bool \<Rightarrow> jsval" where
  "by_name_get i k raw = obj_get (dataValues i) (to_key k)"

definition by_name_prop :: "model_instance \<Rightarrow> jsval \<Rightarrow> jsval" where
  "by_name_prop i k = obj_get (dataValues i) (to_key k)"

definition by_name_set :: "model_instance \<Rightarrow> jsval \<Rightarrow> jsval \<Rightarrow> model_instance" where
  "by_name_set i k v = i\<lparr>dataValues := AList.update (to_key k) v (dataValues i)\<rparr>"

text \<open>Collaborators for the examples: the by-name accessors, a target table holding
  \<open>rows\<close>, a \<^verbatim>\<open>save\<close> that resolves to the instance saved and a \<^verbatim>\<open>create\<close> that
  resolves to \<open>created\<close>.\<close>

definition stub_collab :: "model_instance list \<Rightarrow> model_instance \<Rightarrow> collab" where
  "stub_collab rows created =
     \<lparr>instance_get = by_name_get,
      instance_prop = by_name_prop,
      instance_set = by_name_set,
      instance_save = (\<lambda>i opts. Inr i),
      target_create = (\<lambda>vals opts. Inr created),
      findById = (\<lambda>t k opts. Inr (find (\<lambda>r. by_name_get r (JStr ''id'') False = k) rows)),
      findAll = (\<lambda>t opts. Inr rows),
      findOne = (\<lambda>t opts. Inr (case rows of [] \<Rightarrow> None | r # rest \<Rightarrow> Some r))\<rparr>"

definition plain_helpers :: helpers where
  "plain_helpers =
     \<lparr>addForeignKeyConstraints = (\<lambda>newAttribute tgt src opts k. newAttribute),
      checkNamingCollision = (\<lambda>a. None)\<rparr>"

definition post1 :: model_instance where
  "post1 = \<lparr>inst_model = ''Post'', dataValues = [(''id'', JNum 10), (''AuthorId'', JNum 1)]\<rparr>"

definition post2 :: model_instance where
  "post2 = \<lparr>inst_model = ''Post'', dataValues = [(''id'', JNum 11), (''AuthorId'', JNum 2)]\<rparr>"

definition author1 :: model_instance where
  "author1 = \<lparr>inst_model = ''Author'', dataValues = [(''id'', JNum 1)]\<rparr>"

section \<open>Properties of the constructor\<close>

lemmas ex_defs = Author_def Post_def no_options_def nameless_options_def

lemmas str_defs = camelizeIf_def camelize_def underscoredIf_def underscore_def is_separator_def
  is_upper_def to_upper_def to_lower_def upper_letters_def lower_letters_def uppercaseFirst_def

lemmas new_defs = BelongsTo_new_def arity_mismatch_def isArrayFk_def isArrayTk_def lengthFk_def
  lengthTk_def resolve_foreignKeys_def supplied_foreignKeys_def resolve_targetKeys_def
  singlePrimaryTargetKey_of_def identifierFields_of_def getDefaultForeignKeyName_def
  base_as_def as_truthy_def resolve_as_def normalize_elem_def obj_get_def registry_read_def
  object_prototype_names_def

lemmas inst_defs = post1_def post2_def author1_def stub_collab_def by_name_get_def
  by_name_prop_def by_name_set_def

lemma to_key_examples:
  "to_key (JNum 12) = ''12''"
  "to_key (JNum (- 305)) = ''-305''"
  "to_key (JArr [JNum 1, JNull, JStr ''a'']) = ''1,,a''"
  "to_key (JObj ''Object'' [(''name'', JStr ''AuthorId'')]) = ''[object Object]''"
  by code_simp+

lemma camelize_examples:
  "camelize ''Author_id'' = ''AuthorId''"
  "camelize ''author_id'' = ''authorId''"
  "underscore ''Author'' = ''author''"
  "underscore ''BlogAuthor'' = ''blog_author''"
  "uppercaseFirst ''author'' = ''Author''"
  by (simp_all add: str_defs)

lemma new_post_author: "BelongsTo_new Post Author no_options = Inr post_author"
  by (simp add: new_defs ex_defs str_defs Let_def post_author_def)

lemma targetKeyFields_of_not_Error: "targetKeyFields_of tgt tks \<noteq> Inl (Error m)"
  by (induction tks) (auto split: option.splits sum.splits)

lemma targetKeyFields_of_missing:
  "k \<in> set tks \<Longrightarrow> registry_read (rawAttributes tgt) k = None \<Longrightarrow>
   targetKeyFields_of tgt tks = Inl TypeError"
  by (induction tks) (auto split: option.splits sum.splits)

lemma registry_read_None:
  "map_of registry k = None \<Longrightarrow> k \<notin> set object_prototype_names \<Longrightarrow>
   registry_read registry k = None"
  by (simp add: registry_read_def)

lemma new_post_author_nameless:
  "BelongsTo_new Post Author nameless_options = Inr post_author_nameless"
  by (simp add: new_defs ex_defs str_defs Let_def post_author_nameless_def)

lemma singlePrimaryTargetKey_of_not_Error:
  "singlePrimaryTargetKey_of tgt fks tks \<noteq> Inl (Error m)"
  by (auto simp: singlePrimaryTargetKey_of_def split: list.splits)

lemma new_as:
  "BelongsTo_new src tgt opts = Inr a \<Longrightarrow> as a = resolve_as (opt_as opts) tgt"
  by (auto simp: BelongsTo_new_def Let_def base_as_def split: sum.splits if_splits)

lemma new_fields:
  assumes "BelongsTo_new src tgt opts = Inr a"
  shows "foreignKeys a =
           resolve_foreignKeys (getDefaultForeignKeyName (as a) src tgt) (opt_foreignKey opts)"
    and "targetKeys a = resolve_targetKeys tgt (opt_targetKey opts)"
    and "identifierFields a = identifierFields_of src (foreignKeys a)"
    and "singlePrimaryTargetKey_of tgt (foreignKeys a) (targetKeys a) =
           Inr (singlePrimaryTargetKey a)"
    and "targetKeyFields_of tgt (targetKeys a) = Inr (targetKeyFields a)"
    and "foreignKey a = JUndefined" and "targetKey a = JUndefined"
    and "source a = src" and "target a = tgt"
    and "\<not> arity_mismatch (opt_foreignKey opts) (opt_targetKey opts)"
  using assms
  by (auto simp: BelongsTo_new_def Let_def split: sum.splits if_splits)

text \<open>The invariant of the data model: the constructor leaves as many foreign keys as
  target keys.\<close>

lemma new_lengths:
  assumes "BelongsTo_new src tgt opts = Inr a"
  shows "length (foreignKeys a) = length (targetKeys a)"
  using new_fields(1,2,10) [OF assms]
  by (auto simp: resolve_foreignKeys_def supplied_foreignKeys_def resolve_targetKeys_def
      arity_mismatch_def isArrayFk_def isArrayTk_def lengthFk_def lengthTk_def
      split: fk_option.splits fk_elem.splits tk_option.splits if_splits)

text \<open>C4: when \<^verbatim>\<open>foreignKey\<close> or \<^verbatim>\<open>targetKey\<close> is an array, the constructor throws its
  configuration error unless both are arrays of the same length, and it throws that
  error in no other case. The constructor returns an association or an error and
  nothing else: it has no access to the source's attribute registry, which only
  \<^verbatim>\<open>injectAttributes\<close>, a method of the constructed object, changes.\<close>

theorem constructor_arity_check:
  "(BelongsTo_new src tgt opts = Inl (Error arity_message)) =
   ((isArrayFk (opt_foreignKey opts) \<or> isArrayTk (opt_targetKey opts)) \<and>
    \<not> (isArrayFk (opt_foreignKey opts) \<and> isArrayTk (opt_targetKey opts) \<and>
       lengthFk (opt_foreignKey opts) = lengthTk (opt_targetKey opts)))"
  using targetKeyFields_of_not_Error singlePrimaryTargetKey_of_not_Error
  by (auto simp: BelongsTo_new_def arity_mismatch_def Let_def split: sum.splits)

theorem constructor_arity_check_witness:
  "isArrayFk (FkArray [FkName ''a'', FkName ''b'']) \<and>
   lengthFk (FkArray [FkName ''a'', FkName ''b'']) = 2 \<and>
   lengthTk (TkArray [''x'']) = 1 \<and>
   BelongsTo_new Post Author
     (no_options\<lparr>opt_foreignKey := FkArray [FkName ''a'', FkName ''b''],
                 opt_targetKey := TkArray [''x'']\<rparr>) = Inl (Error arity_message)"
  using constructor_arity_check
          [of Post Author
              "no_options\<lparr>opt_foreignKey := FkArray [FkName ''a'', FkName ''b''],
                          opt_targetKey := TkArray [''x'']\<rparr>"]
  by (simp add: isArrayFk_def isArrayTk_def lengthFk_def lengthTk_def)

text \<open>C6, as amended: with no \<^verbatim>\<open>foreignKey\<close> supplied, the single foreign key is named
  by the join with \<open>_\<close> of the alias and the target's primary-key attribute name; the
  join is camel-cased only when the source is not underscored, and when the source is
  underscored the alias is underscored and the join is left as it is. Alias \<open>Author\<close>,
  primary key \<open>id\<close>, source not underscored: \<open>AuthorId\<close>.\<close>

theorem default_foreign_key_name:
  assumes "opt_foreignKey opts = FkAbsent" and "BelongsTo_new src tgt opts = Inr a"
  shows "foreignKeys a =
           [[(''name'',
              JStr (if underscored src
                    then underscore (as a) @ ''_'' @ primaryKeyAttribute tgt
                    else camelize (as a @ ''_'' @ primaryKeyAttribute tgt)))]]"
  using new_fields(1) [OF assms(2)] assms(1)
  by (simp add: resolve_foreignKeys_def supplied_foreignKeys_def getDefaultForeignKeyName_def
      camelizeIf_def underscoredIf_def)

theorem default_foreign_key_name_witness:
  "opt_foreignKey no_options = FkAbsent \<and>
   BelongsTo_new Post Author no_options = Inr post_author \<and>
   as post_author = ''Author'' \<and>
   primaryKeyAttribute Author = ''id'' \<and>
   foreignKeys post_author = [[(''name'', JStr ''AuthorId'')]]"
proof -
  have absent: "opt_foreignKey no_options = FkAbsent"
    by (simp add: no_options_def)
  from default_foreign_key_name [OF absent new_post_author]
  have "foreignKeys post_author = [[(''name'', JStr ''AuthorId'')]]"
    by (simp add: ex_defs str_defs post_author_def)
  with absent new_post_author show ?thesis
    by (simp add: post_author_def Author_def)
qed

text \<open>The claim as stated fails for an underscored source: the name is \<open>author_id\<close>,
  which is not the camel-cased join.\<close>

theorem default_foreign_key_name_counterexample:
  "map_sum id foreignKeys (BelongsTo_new (Post\<lparr>underscored := True\<rparr>) Author no_options) =
     Inr [[(''name'', JStr ''author_id'')]] \<and>
   ''author_id'' \<noteq> camelize (join ''_'' [underscoredIf ''Author'' True, ''id''])"
  by (simp add: new_defs ex_defs str_defs Let_def)

text \<open>C9: the claim asks, for each foreign key whose name is an attribute of the source,
  for that attribute's field name. The constructor looks the registry up under the
  descriptor object instead of its name, that is under the key \<open>[object Object]\<close>: for
  a source with no attribute of that name \<open>identifierFields\<close> is empty, whatever the
  foreign keys are called. For \<open>Post\<close>, whose attribute \<open>AuthorId\<close> has the field
  \<open>author_id\<close>, the claim gives \<open>[author_id]\<close> and the constructor gives \<open>[]\<close>.\<close>

theorem identifierFields_keyed_by_descriptor:
  assumes "BelongsTo_new src tgt opts = Inr a"
      and "map_of (rawAttributes src) ''[object Object]'' = None"
  shows "identifierFields a = []"
  using new_fields(3) [OF assms(1)] assms(2)
  by (simp add: identifierFields_of_def)

theorem identifierFields_keyed_by_descriptor_witness:
  "BelongsTo_new Post Author no_options = Inr post_author \<and>
   map_of (rawAttributes Post) ''[object Object]'' = None \<and>
   foreignKeys post_author = [[(''name'', JStr ''AuthorId'')]] \<and>
   obj_get (the (map_of (rawAttributes Post) ''AuthorId'')) ''field'' = JStr ''author_id'' \<and>
   identifierFields post_author = []"
proof -
  have h: "map_of (rawAttributes Post) ''[object Object]'' = None"
    by (simp add: Post_def)
  have "identifierFields post_author = []"
    by (rule identifierFields_keyed_by_descriptor [OF new_post_author h])
  with new_post_author h show ?thesis
    by (simp add: Post_def obj_get_def post_author_def)
qed

text \<open>A target key named like a property every object inherits resolves although the
  target has no such attribute: the constructor goes through, with the key's own name
  as the field.\<close>

lemma inherited_target_key_constructs:
  "map_of (rawAttributes Author) ''constructor'' = None \<and>
   map_sum id targetKeyFields
     (BelongsTo_new Post Author (no_options\<lparr>opt_targetKey := TkName ''constructor''\<rparr>)) =
     Inr [JStr ''constructor'']"
  by (simp add: new_defs ex_defs str_defs Let_def)

text \<open>C10, as amended: a configuration whose target keys include a name that is neither
  an attribute of the target nor the name of a property every object inherits from
  \<^verbatim>\<open>Object.prototype\<close> fails in the constructor, which reads \<^verbatim>\<open>.field\<close> of the
  \<^verbatim>\<open>undefined\<close> that name resolves to: with a TypeError, or with the configuration
  error of C4 when the arities differ. No association is constructed, so attribute
  injection is not reached and nothing is merged into the source's registry.\<close>

theorem missing_target_attribute_fails_construction:
  assumes "k \<in> set (resolve_targetKeys tgt (opt_targetKey opts))"
      and "map_of (rawAttributes tgt) k = None"
      and "k \<notin> set object_prototype_names"
  shows "BelongsTo_new src tgt opts =
           Inl (if arity_mismatch (opt_foreignKey opts) (opt_targetKey opts)
                then Error arity_message else TypeError)"
  using targetKeyFields_of_missing [OF assms(1) registry_read_None [OF assms(2,3)]]
  by (simp add: BelongsTo_new_def Let_def)

theorem missing_target_attribute_fails_construction_witness:
  "''uuid'' \<in> set (resolve_targetKeys Author
                    (opt_targetKey (no_options\<lparr>opt_targetKey := TkName ''uuid''\<rparr>))) \<and>
   map_of (rawAttributes Author) ''uuid'' = None \<and>
   ''uuid'' \<notin> set object_prototype_names \<and>
   BelongsTo_new Post Author (no_options\<lparr>opt_targetKey := TkName ''uuid''\<rparr>) = Inl TypeError"
  using missing_target_attribute_fails_construction
          [of "''uuid''" Author "no_options\<lparr>opt_targetKey := TkName ''uuid''\<rparr>" Post]
  by (simp add: resolve_targetKeys_def Author_def no_options_def arity_mismatch_def
      isArrayFk_def isArrayTk_def object_prototype_names_def)

text \<open>The claim as stated fails: for the target key \<open>uuid\<close>, which \<open>Author\<close> does not
  have, the failure is the constructor's TypeError, not the missing-target-key error of
  attribute injection.\<close>

theorem missing_target_attribute_counterexample:
  "map_of (rawAttributes Author) ''uuid'' = None \<and>
   BelongsTo_new Post Author (no_options\<lparr>opt_targetKey := TkName ''uuid''\<rparr>) = Inl TypeError \<and>
   TypeError \<noteq> Error missing_target_key"
  by (simp add: new_defs ex_defs Let_def)

section \<open>Properties of injectAttributes\<close>

lemma map_of_filter_absent:
  "map_of (filter (\<lambda>(k, d). map_of a k = None) b) n =
     (case map_of a n of Some d \<Rightarrow> None | None \<Rightarrow> map_of b n)"
  by (induction b) (auto split: option.splits)

lemma map_of_mergeDefaults:
  "map_of (mergeDefaults a b) n =
     (case map_of a n of Some d \<Rightarrow> Some d | None \<Rightarrow> map_of b n)"
  by (simp add: mergeDefaults_def map_add_def map_of_filter_absent split: option.splits)

text \<open>The names \<^verbatim>\<open>newAttributes\<close> ends with are the names of the foreign keys.\<close>

lemma collect_newAttributes_keys:
  "collect_newAttributes h a fks i acc = Inr new \<Longrightarrow>
   fst ` set new = fst ` set acc \<union> (\<lambda>fk. to_key (obj_get fk ''name'')) ` set fks"
proof (induction fks arbitrary: i acc)
  case Nil
  then show ?case by simp
next
  case (Cons fk fks)
  then show ?case
    by (auto simp: Let_def dom_update split: option.splits if_splits sum.splits)
qed

text \<open>An error thrown inside the loop leaves the registry as it was.\<close>

lemma injectAttributes_registry:
  "rawAttributes (source (fst (injectAttributes h a))) =
     (case collect_newAttributes h a (foreignKeys a) 0 [] of
        Inl e \<Rightarrow> rawAttributes (source a)
      | Inr new \<Rightarrow> mergeDefaults (rawAttributes (source a)) new)"
  by (simp add: injectAttributes_def Let_def refreshAttributes_def split: sum.splits)

text \<open>The guard of line 117 fires for a foreign key with no target key at its position
  (none, or the empty name); it and every other error of the loop is thrown before the
  merge, so the association and the source's registry stay as they were.\<close>

lemma injectAttributes_loop_error:
  "collect_newAttributes h a (foreignKeys a) 0 [] = Inl e \<Longrightarrow>
   injectAttributes h a = (a, Some e)"
  by (simp add: injectAttributes_def)

lemma injectAttributes_missing_target_key:
  assumes "foreignKeys a = fk # fks"
      and "at_index (targetKeys a) 0 = None \<or> at_index (targetKeys a) 0 = Some []"
  shows "injectAttributes h a = (a, Some (Error missing_target_key))"
  using assms by (auto simp: injectAttributes_def)

text \<open>C5: attribute injection leaves every attribute the source already defines as it
  is, also one with the name of a foreign key: the registry afterwards is the registry
  before, followed by added entries, and every added name was absent before and is the
  name of a foreign key.\<close>

theorem injectAttributes_keeps_existing:
  "(map_of (rawAttributes (source a)) n = Some d \<longrightarrow>
      map_of (rawAttributes (source (fst (injectAttributes h a)))) n = Some d) \<and>
   (\<exists>added.
      rawAttributes (source (fst (injectAttributes h a))) = rawAttributes (source a) @ added \<and>
      (\<forall>k \<in> fst ` set added.
         map_of (rawAttributes (source a)) k = None \<and>
         k \<in> (\<lambda>fk. to_key (obj_get fk ''name'')) ` set (foreignKeys a)))"
proof (cases "collect_newAttributes h a (foreignKeys a) 0 []")
  case (Inl e)
  then show ?thesis
    by (simp add: injectAttributes_registry)
next
  case (Inr new)
  let ?added = "filter (\<lambda>(k, d). map_of (rawAttributes (source a)) k = None) new"
  have keys: "fst ` set new = (\<lambda>fk. to_key (obj_get fk ''name'')) ` set (foreignKeys a)"
    using collect_newAttributes_keys [OF Inr] by simp
  show ?thesis
  proof (intro conjI impI exI [of _ ?added] ballI)
    assume "map_of (rawAttributes (source a)) n = Some d"
    then show "map_of (rawAttributes (source (fst (injectAttributes h a)))) n = Some d"
      by (simp add: injectAttributes_registry Inr map_of_mergeDefaults)
  next
    show "rawAttributes (source (fst (injectAttributes h a))) =
            rawAttributes (source a) @ ?added"
      by (simp add: injectAttributes_registry Inr mergeDefaults_def)
  next
    fix k
    assume "k \<in> fst ` set ?added"
    then show "map_of (rawAttributes (source a)) k = None" by auto
  next
    fix k
    assume "k \<in> fst ` set ?added"
    then have "k \<in> fst ` set new" by auto
    with keys show "k \<in> (\<lambda>fk. to_key (obj_get fk ''name'')) ` set (foreignKeys a)" by simp
  qed
qed

theorem injectAttributes_keeps_existing_witness:
  "map_of (rawAttributes (source post_author)) ''AuthorId'' =
     Some [(''type'', JStr ''BIGINT''), (''field'', JStr ''author_id'')] \<and>
   map (\<lambda>fk. to_key (obj_get fk ''name'')) (foreignKeys post_author) = [''AuthorId''] \<and>
   map_of (rawAttributes (source (fst (injectAttributes plain_helpers post_author))))
       ''AuthorId'' =
     Some [(''type'', JStr ''BIGINT''), (''field'', JStr ''author_id'')]"
proof -
  have h: "map_of (rawAttributes (source post_author)) ''AuthorId'' =
             Some [(''type'', JStr ''BIGINT''), (''field'', JStr ''author_id'')]"
    by (simp add: post_author_def Post_def)
  from injectAttributes_keeps_existing [of post_author "''AuthorId''" _ plain_helpers] h
  have "map_of (rawAttributes (source (fst (injectAttributes plain_helpers post_author))))
            ''AuthorId'' =
          Some [(''type'', JStr ''BIGINT''), (''field'', JStr ''author_id'')]"
    by blast
  with h show ?thesis
    by (simp add: post_author_def obj_get_def)
qed

section \<open>Properties of get\<close>

text \<open>C7, as amended: for a relationship with one key pair whose target key is the
  target's primary key, \<open>singlePrimaryTargetKey\<close> is the name of the sole foreign key,
  and it is \<^verbatim>\<open>null\<close> for every other list of target keys. When that name is truthy (a
  non-empty string) and the options carry no \<^verbatim>\<open>where\<close>, \<^verbatim>\<open>get\<close> on one instance
  issues a single \<^verbatim>\<open>findById\<close> with the instance's value of that foreign key and the
  options as they came: no filter is built.\<close>

theorem single_primary_key_lookup:
  assumes "BelongsTo_new src tgt opts = Inr a"
  shows "(\<forall>fk. foreignKeys a = [fk] \<and> targetKeys a = [primaryKeyAttribute tgt] \<longrightarrow>
            singlePrimaryTargetKey a = obj_get fk ''name'' \<and>
            (truthy (obj_get fk ''name'') \<and> \<not> truthy (obj_get gopts ''where'') \<longrightarrow>
               BelongsTo_get c a (OneInstance i) gopts =
                 ([FindById (resolve_target gopts)
                     (instance_get c i (obj_get fk ''name'') False) gopts],
                  (case findById c (resolve_target gopts)
                          (instance_get c i (obj_get fk ''name'') False) gopts of
                     Inl e \<Rightarrow> Inl e | Inr r \<Rightarrow> Inr (GotInstance r))))) \<and>
         (targetKeys a \<noteq> [primaryKeyAttribute tgt] \<longrightarrow> singlePrimaryTargetKey a = JNull)"
proof (intro conjI allI impI)
  fix fk
  assume one: "foreignKeys a = [fk] \<and> targetKeys a = [primaryKeyAttribute tgt]"
  with new_fields(4) [OF assms] show spk: "singlePrimaryTargetKey a = obj_get fk ''name''"
    by (simp add: singlePrimaryTargetKey_of_def)
  assume "truthy (obj_get fk ''name'') \<and> \<not> truthy (obj_get gopts ''where'')"
  with spk show "BelongsTo_get c a (OneInstance i) gopts =
                 ([FindById (resolve_target gopts)
                     (instance_get c i (obj_get fk ''name'') False) gopts],
                  (case findById c (resolve_target gopts)
                          (instance_get c i (obj_get fk ''name'') False) gopts of
                     Inl e \<Rightarrow> Inl e | Inr r \<Rightarrow> Inr (GotInstance r)))"
    by (simp add: BelongsTo_get_def Let_def)
next
  assume ne: "targetKeys a \<noteq> [primaryKeyAttribute tgt]"
  have "\<not> (length (targetKeys a) = 1 \<and> targetKeys a ! 0 = primaryKeyAttribute tgt)"
  proof
    assume h: "length (targetKeys a) = 1 \<and> targetKeys a ! 0 = primaryKeyAttribute tgt"
    then obtain k where "targetKeys a = [k]"
      by (cases "targetKeys a") auto
    with h ne show False by simp
  qed
  with new_fields(4) [OF assms] show "singlePrimaryTargetKey a = JNull"
    by (auto simp: singlePrimaryTargetKey_of_def split: if_splits)
qed

theorem single_primary_key_lookup_witness:
  "BelongsTo_new Post Author no_options = Inr post_author \<and>
   foreignKeys post_author = [[(''name'', JStr ''AuthorId'')]] \<and>
   targetKeys post_author = [primaryKeyAttribute Author] \<and>
   singlePrimaryTargetKey post_author = JStr ''AuthorId'' \<and>
   BelongsTo_get (stub_collab [author1] author1) post_author (OneInstance post1) [] =
     ([FindById \<lparr>tr_scope = DefaultScope, tr_schema = None\<rparr> (JNum 1) []],
      Inr (GotInstance (Some author1)))"
proof -
  have fk: "foreignKeys post_author = [[(''name'', JStr ''AuthorId'')]]"
    by (simp add: post_author_def)
  have tk: "targetKeys post_author = [primaryKeyAttribute Author]"
    by (simp add: post_author_def Author_def)
  have nm: "obj_get [(''name'', JStr ''AuthorId'')] ''name'' = JStr ''AuthorId''"
    by (simp add: obj_get_def)
  have wh: "\<not> truthy (obj_get [] ''where'')"
    by (simp add: obj_get_def)
  from single_primary_key_lookup
         [OF new_post_author, of "[]" "stub_collab [author1] author1" post1] fk tk nm wh
  have spk: "singlePrimaryTargetKey post_author = JStr ''AuthorId''"
    and get: "BelongsTo_get (stub_collab [author1] author1) post_author (OneInstance post1) [] =
                ([FindById (resolve_target [])
                    (instance_get (stub_collab [author1] author1) post1 (JStr ''AuthorId'')
                       False) []],
                 (case findById (stub_collab [author1] author1) (resolve_target [])
                         (instance_get (stub_collab [author1] author1) post1
                            (JStr ''AuthorId'') False) [] of
                    Inl e \<Rightarrow> Inl e | Inr r \<Rightarrow> Inr (GotInstance r)))"
    by simp_all
  have "BelongsTo_get (stub_collab [author1] author1) post_author (OneInstance post1) [] =
          ([FindById \<lparr>tr_scope = DefaultScope, tr_schema = None\<rparr> (JNum 1) []],
           Inr (GotInstance (Some author1)))"
    unfolding get by (simp add: inst_defs obj_get_def resolve_target_def hasOwnProperty_def)
  with new_post_author fk tk spk show ?thesis
    by simp
qed

text \<open>The claim as stated fails for a foreign key without a name: the guard of line 200
  tests \<open>singlePrimaryTargetKey\<close> for truthiness, so with one key pair on the primary
  key and no \<^verbatim>\<open>where\<close>, \<^verbatim>\<open>get\<close> builds the filter and issues \<^verbatim>\<open>findOne\<close>, not
  \<^verbatim>\<open>findById\<close>.\<close>

theorem single_primary_key_lookup_counterexample:
  "BelongsTo_new Post Author nameless_options = Inr post_author_nameless \<and>
   foreignKeys post_author_nameless = [[(''type'', JStr ''UUID'')]] \<and>
   targetKeys post_author_nameless = [primaryKeyAttribute Author] \<and>
   singlePrimaryTargetKey post_author_nameless = JUndefined \<and>
   obj_get [] ''where'' = JUndefined \<and>
   BelongsTo_get (stub_collab [author1] author1) post_author_nameless (OneInstance post1) [] =
     ([FindOne \<lparr>tr_scope = DefaultScope, tr_schema = None\<rparr>
         [(''limit'', JNull), (''where'', JObj ''Object'' [(''id'', JUndefined)])]],
      Inr (GotInstance (Some author1)))"
  by (simp add: new_post_author_nameless)
     (simp add: post_author_nameless_def Author_def BelongsTo_get_def inst_defs obj_get_def
        resolve_target_def hasOwnProperty_def with_where_def key_at_def at_index_def Let_def)

text \<open>C1: the claim asks for a mapping from each source instance's foreign-key value to
  the matching target instance or \<^verbatim>\<open>null\<close>. The batch mode does build one filter with
  an \<^verbatim>\<open>Op.in\<close> condition per target key and issues exactly one \<^verbatim>\<open>findAll\<close>, but it
  keys the result by \<^verbatim>\<open>instance.get(association.foreignKey)\<close> and
  \<^verbatim>\<open>instance.get(association.targetKey)\<close>, two properties no constructor assigns:
  every key of the mapping is what \<^verbatim>\<open>get(undefined)\<close> gives. For two posts with the
  authors 1 and 2 and a table holding author 1, the claim gives the mapping of 1 to the
  author and of 2 to \<^verbatim>\<open>null\<close>; with by-name accessors the code gives the single key
  \<open>undefined\<close>.\<close>

theorem batch_get_keys_by_undefined:
  assumes "BelongsTo_new src tgt opts = Inr a"
  shows "BelongsTo_get c a (ManyInstances insts) gopts =
           (let q = with_where gopts
                      (where_forEach
                         (\<lambda>fk. JObj ''Object''
                                  [(Op_in,
                                    JArr (map (\<lambda>i. instance_get c i (obj_get fk ''name'') False)
                                            insts))])
                         (targetKeys a) (foreignKeys a) 0 [])
            in ([FindAll (resolve_target gopts) q],
                (case findAll c (resolve_target gopts) q of
                   Inl e \<Rightarrow> Inl e
                 | Inr results \<Rightarrow>
                     Inr (GotMapping
                            (foldl (\<lambda>result r.
                                      AList.update (to_key (instance_get c r JUndefined True))
                                        (Some r) result)
                               (foldl (\<lambda>result i.
                                         AList.update (to_key (instance_get c i JUndefined True))
                                           None result)
                                  [] insts)
                               results)))))"
  using new_fields(6,7) [OF assms]
  by (simp add: BelongsTo_get_def batch_result_def Let_def split: sum.splits)

theorem batch_get_keys_by_undefined_witness:
  "BelongsTo_new Post Author no_options = Inr post_author \<and>
   by_name_get post1 (JStr ''AuthorId'') False = JNum 1 \<and>
   by_name_get post2 (JStr ''AuthorId'') False = JNum 2 \<and>
   by_name_get author1 (JStr ''id'') False = JNum 1 \<and>
   BelongsTo_get (stub_collab [author1] author1) post_author (ManyInstances [post1, post2]) [] =
     ([FindAll \<lparr>tr_scope = DefaultScope, tr_schema = None\<rparr>
         [(''where'',
           JObj ''Object'' [(''id'', JObj ''Object'' [(Op_in, JArr [JNum 1, JNum 2])])])]],
      Inr (GotMapping [(''undefined'', Some author1)]))"
proof -
  have "BelongsTo_get (stub_collab [author1] author1) post_author
            (ManyInstances [post1, post2]) [] =
          ([FindAll \<lparr>tr_scope = DefaultScope, tr_schema = None\<rparr>
              [(''where'',
                JObj ''Object''
                  [(''id'', JObj ''Object'' [(Op_in, JArr [JNum 1, JNum 2])])])]],
           Inr (GotMapping [(''undefined'', Some author1)]))"
    unfolding batch_get_keys_by_undefined [OF new_post_author]
    by (simp add: inst_defs post_author_def obj_get_def resolve_target_def hasOwnProperty_def
        with_where_def key_at_def at_index_def Let_def)
  with new_post_author show ?thesis
    by (simp add: inst_defs obj_get_def)
qed

section \<open>Properties of set\<close>

text \<open>An options object has each key once; \<^verbatim>\<open>_.extend\<close> then lets every key of the
  options override the default of the same name.\<close>

lemma map_of_lodash_extend:
  "distinct (map fst src) \<Longrightarrow>
   map_of (lodash_extend dest src) k =
     (case map_of src k of Some v \<Rightarrow> Some v | None \<Rightarrow> map_of dest k)"
proof (induction src arbitrary: dest)
  case Nil
  then show ?case by simp
next
  case (Cons p src)
  obtain k' v' where p: "p = (k', v')" by (cases p)
  from Cons.prems p have absent: "map_of src k' = None" and dist: "distinct (map fst src)"
    by (auto simp: map_of_eq_None_iff)
  show ?case
    using Cons.IH [OF dist, of "AList.update k' v' dest"] absent
    by (auto simp: p update_conv' split: option.splits)
qed

lemma obj_get_lodash_extend:
  "distinct (map fst src) \<Longrightarrow>
   obj_get (lodash_extend dest src) k =
     (if hasOwnProperty src k then obj_get src k else obj_get dest k)"
  unfolding obj_get_def hasOwnProperty_def
  by (cases "map_of src k")
     (simp_all only: map_of_lodash_extend option.case option.simps if_True if_False simp_thms)

text \<open>C2, as amended: \<^verbatim>\<open>set\<close> takes the value from its second argument (read off the
  argument by the association's \<^verbatim>\<open>targetKey\<close> property when the argument is an instance
  of the target, the argument itself otherwise, \<^verbatim>\<open>null\<close> and \<^verbatim>\<open>undefined\<close> included) and
  assigns it in memory under the association's \<^verbatim>\<open>foreignKey\<close> property. Unless
  \<^verbatim>\<open>options.save\<close> is \<^verbatim>\<open>false\<close>, it then issues one \<^verbatim>\<open>save\<close> on the source instance,
  whose options are the caller's laid over the defaults \<^verbatim>\<open>fields\<close> and \<^verbatim>\<open>allowNull\<close>
  (both the list of that one key) and \<^verbatim>\<open>association: true\<close>: each default holds where
  the caller's options have no property of that name, and the caller's value holds
  where they have one.\<close>

theorem set_assigns_then_saves:
  assumes "distinct (map fst sopts)"
  shows "BelongsTo_set c a s x None = BelongsTo_set c a s x (Some []) \<and>
         source_after (BelongsTo_set c a s x (Some sopts)) =
           instance_set c s (foreignKey a)
             (case x of
                ArgInstance i \<Rightarrow>
                  if inst_model i = model_name (target a) then instance_prop c i (targetKey a)
                  else instance_val i
              | ArgValue v \<Rightarrow> v) \<and>
         (obj_get sopts ''save'' = JBool False \<longrightarrow>
            calls (BelongsTo_set c a s x (Some sopts)) = []) \<and>
         (obj_get sopts ''save'' \<noteq> JBool False \<longrightarrow>
            calls (BelongsTo_set c a s x (Some sopts)) =
              [Save (source_after (BelongsTo_set c a s x (Some sopts)))
                 (save_options a sopts)]) \<and>
         obj_get (save_options a sopts) ''fields'' =
           (if hasOwnProperty sopts ''fields'' then obj_get sopts ''fields''
            else JArr [foreignKey a]) \<and>
         obj_get (save_options a sopts) ''allowNull'' =
           (if hasOwnProperty sopts ''allowNull'' then obj_get sopts ''allowNull''
            else JArr [foreignKey a]) \<and>
         obj_get (save_options a sopts) ''association'' =
           (if hasOwnProperty sopts ''association'' then obj_get sopts ''association''
            else JBool True)"
proof (intro conjI impI)
  show "BelongsTo_set c a s x None = BelongsTo_set c a s x (Some [])"
    by (simp add: BelongsTo_set_def)
next
  show "source_after (BelongsTo_set c a s x (Some sopts)) =
           instance_set c s (foreignKey a)
             (case x of
                ArgInstance i \<Rightarrow>
                  if inst_model i = model_name (target a) then instance_prop c i (targetKey a)
                  else instance_val i
              | ArgValue v \<Rightarrow> v)"
    by (simp add: BelongsTo_set_def set_value_def instanceof_model_def arg_val_def Let_def
        split: set_arg.splits)
next
  assume "obj_get sopts ''save'' = JBool False"
  then show "calls (BelongsTo_set c a s x (Some sopts)) = []"
    by (simp add: BelongsTo_set_def Let_def)
next
  assume "obj_get sopts ''save'' \<noteq> JBool False"
  then show "calls (BelongsTo_set c a s x (Some sopts)) =
               [Save (source_after (BelongsTo_set c a s x (Some sopts)))
                  (save_options a sopts)]"
    by (simp add: BelongsTo_set_def Let_def)
next
  show "obj_get (save_options a sopts) ''fields'' =
          (if hasOwnProperty sopts ''fields'' then obj_get sopts ''fields''
           else JArr [foreignKey a])"
    by (simp add: save_options_def obj_get_lodash_extend [OF assms]) (simp add: obj_get_def)
next
  show "obj_get (save_options a sopts) ''allowNull'' =
          (if hasOwnProperty sopts ''allowNull'' then obj_get sopts ''allowNull''
           else JArr [foreignKey a])"
    by (simp add: save_options_def obj_get_lodash_extend [OF assms]) (simp add: obj_get_def)
next
  show "obj_get (save_options a sopts) ''association'' =
          (if hasOwnProperty sopts ''association'' then obj_get sopts ''association''
           else JBool True)"
    by (simp add: save_options_def obj_get_lodash_extend [OF assms]) (simp add: obj_get_def)
qed

theorem set_assigns_then_saves_witness:
  "distinct (map fst ([] :: jsobj)) \<and>
   obj_get [] ''save'' \<noteq> JBool False \<and>
   \<not> hasOwnProperty [] ''fields'' \<and>
   calls (BelongsTo_set (stub_collab [] author1) post_author post2 (ArgInstance author1)
            (Some [])) =
     [Save (source_after
              (BelongsTo_set (stub_collab [] author1) post_author post2 (ArgInstance author1)
                 (Some [])))
        (save_options post_author [])] \<and>
   obj_get (save_options post_author []) ''fields'' = JArr [foreignKey post_author] \<and>
   obj_get (save_options post_author []) ''association'' = JBool True"
proof -
  have d: "distinct (map fst ([] :: jsobj))"
    by simp
  have ns: "obj_get [] ''save'' \<noteq> JBool False"
    by (simp add: obj_get_def)
  have nf: "\<not> hasOwnProperty [] k" for k
    by (simp add: hasOwnProperty_def)
  from set_assigns_then_saves
         [OF d, of "stub_collab [] author1" post_author post2 "ArgInstance author1"] ns nf
  show ?thesis
    by simp
qed

text \<open>The claim as stated fails: options that carry \<^verbatim>\<open>fields\<close> of their own replace the
  default, so the field set persisted is the caller's \<open>[title]\<close>, not the foreign key.\<close>

theorem set_assigns_then_saves_counterexample:
  "obj_get [(''fields'', JArr [JStr ''title''])] ''save'' \<noteq> JBool False \<and>
   calls (BelongsTo_set (stub_collab [] author1) post_author post2 (ArgValue (JNum 1))
            (Some [(''fields'', JArr [JStr ''title''])])) =
     [Save \<lparr>inst_model = ''Post'',
            dataValues = [(''id'', JNum 11), (''AuthorId'', JNum 2), (''undefined'', JNum 1)]\<rparr>
        [(''fields'', JArr [JStr ''title'']),
         (''allowNull'', JArr [JUndefined]),
         (''association'', JBool True)]] \<and>
   JArr [JStr ''title''] \<noteq> JArr [JStr ''AuthorId'']"
  by (simp add: BelongsTo_set_def set_value_def save_options_def Let_def inst_defs obj_get_def
      post_author_def)

text \<open>C8: the claim has \<^verbatim>\<open>set\<close> with \<^verbatim>\<open>save: false\<close> assign the foreign-key attribute in
  memory and issue no persistence call. No persistence call is issued, but the
  assignment is \<^verbatim>\<open>sourceInstance.set(association.foreignKey, value)\<close>, and no
  constructor assigns \<^verbatim>\<open>association.foreignKey\<close>: the key handed to \<^verbatim>\<open>set\<close> is
  \<^verbatim>\<open>undefined\<close>. For a post whose \<open>AuthorId\<close> is 2, \<^verbatim>\<open>set(post, null, {save: false})\<close>
  leaves \<open>AuthorId\<close> at 2 under by-name accessors, where the claim has it \<^verbatim>\<open>null\<close>.\<close>

theorem set_without_save_assigns_undefined_key:
  assumes "BelongsTo_new src tgt opts = Inr a"
      and "obj_get sopts ''save'' = JBool False"
  shows "BelongsTo_set c a s x (Some sopts) =
           \<lparr>calls = [],
            source_after =
              instance_set c s JUndefined
                (case x of
                   ArgInstance i \<Rightarrow>
                     if inst_model i = model_name tgt then instance_prop c i JUndefined
                     else instance_val i
                 | ArgValue v \<Rightarrow> v),
            returned = Inr None\<rparr>"
  using new_fields(6,7,9) [OF assms(1)] assms(2)
  by (simp add: BelongsTo_set_def set_value_def instanceof_model_def arg_val_def Let_def
      split: set_arg.splits)

theorem set_without_save_assigns_undefined_key_witness:
  "BelongsTo_new Post Author no_options = Inr post_author \<and>
   obj_get [(''save'', JBool False)] ''save'' = JBool False \<and>
   by_name_get post2 (JStr ''AuthorId'') False = JNum 2 \<and>
   BelongsTo_set (stub_collab [] author1) post_author post2 (ArgValue JNull)
       (Some [(''save'', JBool False)]) =
     \<lparr>calls = [],
      source_after =
        \<lparr>inst_model = ''Post'',
         dataValues = [(''id'', JNum 11), (''AuthorId'', JNum 2), (''undefined'', JNull)]\<rparr>,
      returned = Inr None\<rparr> \<and>
   by_name_get
     (source_after
        (BelongsTo_set (stub_collab [] author1) post_author post2 (ArgValue JNull)
           (Some [(''save'', JBool False)])))
     (JStr ''AuthorId'') False = JNum 2"
proof -
  have h: "obj_get [(''save'', JBool False)] ''save'' = JBool False"
    by (simp add: obj_get_def)
  have "BelongsTo_set (stub_collab [] author1) post_author post2 (ArgValue JNull)
            (Some [(''save'', JBool False)]) =
          \<lparr>calls = [],
           source_after =
             \<lparr>inst_model = ''Post'',
              dataValues =
                [(''id'', JNum 11), (''AuthorId'', JNum 2), (''undefined'', JNull)]\<rparr>,
           returned = Inr None\<rparr>"
    unfolding set_without_save_assigns_undefined_key [OF new_post_author h]
    by (simp add: inst_defs)
  with new_post_author h show ?thesis
    by (simp add: inst_defs obj_get_def)
qed

section \<open>Properties of create\<close>

lemma create_options_get:
  "obj_get (create_options fo) k =
     (if k = ''logging'' then obj_get (case fo of None \<Rightarrow> [] | Some ob \<Rightarrow> ob) ''logging''
      else if k = ''transaction'' \<and>
              instanceof_Transaction
                (obj_get (case fo of None \<Rightarrow> [] | Some ob \<Rightarrow> ob) ''transaction'')
      then obj_get (case fo of None \<Rightarrow> [] | Some ob \<Rightarrow> ob) ''transaction''
      else JUndefined)"
  by (auto simp: create_options_def Let_def obj_get_def update_conv')

text \<open>C3, as amended: \<^verbatim>\<open>create\<close> first creates a target instance from the values,
  handing on the options it was given as they are. If that fails, nothing else happens
  and the failure is the result. Only when it has succeeded is the set accessor called,
  with the new instance and with options holding \<^verbatim>\<open>logging\<close> and, when it is a
  Transaction, \<^verbatim>\<open>transaction\<close>; the accessor saves the source instance, and what
  \<^verbatim>\<open>create\<close> returns is what the accessor returns, the outcome of that save, not the
  created target instance.\<close>

theorem create_then_set_accessor:
  "(\<forall>e. target_create c vals fo = Inl e \<longrightarrow>
      BelongsTo_create c a s vals fo =
        \<lparr>calls = [Create vals fo], source_after = s, returned = Inl e\<rparr>) \<and>
   (\<forall>t. target_create c vals fo = Inr t \<longrightarrow>
      BelongsTo_create c a s vals fo =
        (let r = BelongsTo_set c a s (ArgInstance t) (Some (create_options fo))
         in \<lparr>calls = Create vals fo # calls r,
             source_after = source_after r,
             returned = returned r\<rparr>) \<and>
      calls (BelongsTo_create c a s vals fo) =
        [Create vals fo,
         Save (source_after (BelongsTo_create c a s vals fo))
           (save_options a (create_options fo))] \<and>
      returned (BelongsTo_create c a s vals fo) =
        (case instance_save c (source_after (BelongsTo_create c a s vals fo))
                (save_options a (create_options fo)) of
           Inl e \<Rightarrow> Inl e | Inr saved \<Rightarrow> Inr (Some saved))) \<and>
   obj_get (create_options fo) ''logging'' =
     obj_get (case fo of None \<Rightarrow> [] | Some ob \<Rightarrow> ob) ''logging'' \<and>
   obj_get (create_options fo) ''transaction'' =
     (if instanceof_Transaction
           (obj_get (case fo of None \<Rightarrow> [] | Some ob \<Rightarrow> ob) ''transaction'')
      then obj_get (case fo of None \<Rightarrow> [] | Some ob \<Rightarrow> ob) ''transaction''
      else JUndefined)"
proof -
  have ns: "obj_get (create_options fo) ''save'' \<noteq> JBool False"
    by (simp add: create_options_get)
  show ?thesis
    using ns
    by (auto simp: BelongsTo_create_def set_accessor_def BelongsTo_set_def Let_def
        create_options_get)
qed

theorem create_then_set_accessor_witness:
  "target_create (stub_collab [] author1) (JObj ''Object'' [(''name'', JStr ''Ann'')])
       (Some [(''logging'', JBool False)]) = Inr author1 \<and>
   calls (BelongsTo_create (stub_collab [] author1) post_author post2
            (JObj ''Object'' [(''name'', JStr ''Ann'')]) (Some [(''logging'', JBool False)])) =
     [Create (JObj ''Object'' [(''name'', JStr ''Ann'')]) (Some [(''logging'', JBool False)]),
      Save (source_after
              (BelongsTo_create (stub_collab [] author1) post_author post2
                 (JObj ''Object'' [(''name'', JStr ''Ann'')])
                 (Some [(''logging'', JBool False)])))
        (save_options post_author (create_options (Some [(''logging'', JBool False)])))] \<and>
   obj_get (create_options (Some [(''logging'', JBool False)])) ''logging'' = JBool False"
proof -
  have t: "target_create (stub_collab [] author1) (JObj ''Object'' [(''name'', JStr ''Ann'')])
             (Some [(''logging'', JBool False)]) = Inr author1"
    by (simp add: stub_collab_def)
  from create_then_set_accessor
         [of "stub_collab [] author1" "JObj ''Object'' [(''name'', JStr ''Ann'')]"
             "Some [(''logging'', JBool False)]" post_author post2] t
  have "calls (BelongsTo_create (stub_collab [] author1) post_author post2
            (JObj ''Object'' [(''name'', JStr ''Ann'')]) (Some [(''logging'', JBool False)])) =
     [Create (JObj ''Object'' [(''name'', JStr ''Ann'')]) (Some [(''logging'', JBool False)]),
      Save (source_after
              (BelongsTo_create (stub_collab [] author1) post_author post2
                 (JObj ''Object'' [(''name'', JStr ''Ann'')])
                 (Some [(''logging'', JBool False)])))
        (save_options post_author (create_options (Some [(''logging'', JBool False)])))]"
    and "obj_get (create_options (Some [(''logging'', JBool False)])) ''logging'' =
           obj_get (case Some [(''logging'', JBool False)] of None \<Rightarrow> [] | Some ob \<Rightarrow> ob)
             ''logging''"
    by blast+
  with t show ?thesis
    by (simp add: obj_get_def)
qed

text \<open>The claim as stated fails: with a \<^verbatim>\<open>save\<close> that resolves to the instance saved,
  \<^verbatim>\<open>create\<close> resolves to the source post, not to the author created.\<close>

theorem create_then_set_accessor_counterexample:
  "target_create (stub_collab [] author1) (JObj ''Object'' []) None = Inr author1 \<and>
   returned (BelongsTo_create (stub_collab [] author1) post_author post2 (JObj ''Object'' [])
               None) =
     Inr (Some \<lparr>inst_model = ''Post'',
                dataValues =
                  [(''id'', JNum 11), (''AuthorId'', JNum 2), (''undefined'', JUndefined)]\<rparr>) \<and>
   returned (BelongsTo_create (stub_collab [] author1) post_author post2 (JObj ''Object'' [])
               None) \<noteq>
     Inr (Some author1)"
  by (simp add: BelongsTo_create_def set_accessor_def BelongsTo_set_def set_value_def
      instanceof_model_def save_options_def create_options_def Let_def inst_defs obj_get_def
      post_author_def Author_def)

end
